theory Spec2Isabelle
  imports Main
begin

section \<open>JavaScript values used by the status code\<close>

text \<open>
  The build numbers of \<^verbatim>\<open>index.js\<close> are JavaScript values: a number read from the
  job's JSON, \<^verbatim>\<open>undefined\<close> when \<^verbatim>\<open>(x || {}).number\<close> finds no build, \<^verbatim>\<open>null\<close> in the
  last branch of the \<^verbatim>\<open>buildId\<close> ternary, and \<^verbatim>\<open>NaN\<close> from \<^verbatim>\<open>undefined + 1\<close>.
  Build numbers are integers far below \<open>2^53\<close>, so \<^verbatim>\<open>+ 1\<close> on them is exact and
  they are modelled as \<open>int\<close>.
\<close>

datatype js = Undefined | Null | NaN | Num int

text \<open>\<^verbatim>\<open>ToNumber\<close>: \<open>None\<close> stands for \<^verbatim>\<open>NaN\<close>.\<close>

fun to_number :: "js \<Rightarrow> int option" where
  "to_number Undefined = None"
| "to_number Null = Some 0"
| "to_number NaN = None"
| "to_number (Num n) = Some n"

text \<open>\<^verbatim>\<open>a < b\<close>: false as soon as one side converts to \<^verbatim>\<open>NaN\<close>.\<close>

definition js_lt :: "js \<Rightarrow> js \<Rightarrow> bool" where
  "js_lt a b =
     (case to_number a of
        None \<Rightarrow> False
      | Some x \<Rightarrow> (case to_number b of None \<Rightarrow> False | Some y \<Rightarrow> x < y))"

text \<open>\<^verbatim>\<open>a + 1\<close>.\<close>

definition js_add1 :: "js \<Rightarrow> js" where
  "js_add1 a = (case to_number a of None \<Rightarrow> NaN | Some x \<Rightarrow> Num (x + 1))"

text \<open>\<^verbatim>\<open>a === b\<close>: \<^verbatim>\<open>NaN\<close> equals nothing, itself included.\<close>

definition js_seq :: "js \<Rightarrow> js \<Rightarrow> bool" where
  "js_seq a b = (a \<noteq> NaN \<and> a = b)"

text \<open>Truthiness, as \<^verbatim>\<open>||\<close>, \<^verbatim>\<open>&&\<close> and \<^verbatim>\<open>if\<close> test it.\<close>

fun truthy :: "js \<Rightarrow> bool" where
  "truthy (Num n) = (n \<noteq> 0)"
| "truthy _ = False"

text \<open>\<^verbatim>\<open>a || b\<close>.\<close>

definition js_or :: "js \<Rightarrow> js \<Rightarrow> js" where
  "js_or a b = (if truthy a then a else b)"

text \<open>\<^verbatim>\<open>xs[i]\<close>: reading past the end of an array gives \<^verbatim>\<open>undefined\<close>.\<close>

definition js_index :: "js list \<Rightarrow> nat \<Rightarrow> js" where
  "js_index xs i = (if i < length xs then xs ! i else Undefined)"

text \<open>\<^verbatim>\<open>xs.indexOf(v) > -1\<close>: some element is strictly equal to \<open>v\<close>.\<close>

definition js_includes :: "js list \<Rightarrow> js \<Rightarrow> bool" where
  "js_includes xs v = list_ex (\<lambda>x. js_seq x v) xs"

section \<open>The job snapshot and the build status\<close>

text \<open>
  A build reference of the job's JSON, as the code can tell them apart: the key is
  missing (\<^verbatim>\<open>undefined\<close>, as in the answer for a folder, which has no builds of its
  own), the key holds \<^verbatim>\<open>null\<close> (a job with no such build), or it holds a build object,
  which carries its \<^verbatim>\<open>number\<close>.
\<close>

datatype build_ref = NoKey | NullRef | Build int

text \<open>
  What \<^verbatim>\<open>api.job.get\<close> resolves with. \<^verbatim>\<open>inQueue\<close> is a JSON boolean. \<^verbatim>\<open>queueItem\<close> is
  read only through \<^verbatim>\<open>(data.queueItem || {})\<close>, which treats a missing key and
  \<^verbatim>\<open>null\<close> alike (\<open>None\<close>); its \<^verbatim>\<open>buildableStartMilliseconds\<close> may be missing.
\<close>

record queue_item =
  buildableStartMilliseconds :: "int option"

record job_snapshot =
  lastCompletedBuild :: build_ref
  lastSuccessfulBuild :: build_ref
  lastBuild :: build_ref
  lastFailedBuild :: build_ref
  lastUnsuccessfulBuild :: build_ref
  inQueue :: bool
  queueItem :: "queue_item option"

text \<open>The strings \<^verbatim>\<open>'unknown'\<close>, \<^verbatim>\<open>'passing'\<close>, \<^verbatim>\<open>'failing'\<close>, \<^verbatim>\<open>'canceled'\<close>, \<^verbatim>\<open>'running'\<close>.\<close>

datatype status_name = Unknown | Passing | Failing | Canceled | Running

text \<open>The value of \<^verbatim>\<open>eta\<close>: a number of milliseconds or \<^verbatim>\<open>Infinity\<close>.\<close>

datatype eta_time = Eta int | Infinity

text \<open>
  The object \<^verbatim>\<open>getProjectStatus\<close> resolves with. The field \<^verbatim>\<open>last\<close> is named
  \<open>last_id\<close> here, \<open>last\<close> being the list function.
\<close>

record build_status =
  running :: bool
  queued :: bool
  current :: status_name
  status :: status_name
  last_id :: js
  build :: js
  eta :: eta_time

text \<open>\<^verbatim>\<open>(x || {}).number\<close>: a missing key and \<^verbatim>\<open>null\<close> are both falsy.\<close>

fun number_of :: "build_ref \<Rightarrow> js" where
  "number_of NoKey = Undefined"
| "number_of NullRef = Undefined"
| "number_of (Build n) = Num n"

text \<open>\<^verbatim>\<open>(data.queueItem || {}).buildableStartMilliseconds || Infinity\<close>: a missing
  estimate and the estimate \<open>0\<close> are both falsy.\<close>

definition queue_eta :: "queue_item option \<Rightarrow> eta_time" where
  "queue_eta q =
     (case q of
        None \<Rightarrow> Infinity
      | Some i \<Rightarrow>
          (case buildableStartMilliseconds i of
             None \<Rightarrow> Infinity
           | Some t \<Rightarrow> if t \<noteq> 0 then Eta t else Infinity))"

text \<open>
  The callback of \<^verbatim>\<open>getProjectStatus\<close> (lines 143 to 176), which turns the fetched
  snapshot into the status; \<open>runningProject\<close> is the second parameter of
  \<^verbatim>\<open>getProjectStatus\<close>. The guard \<^verbatim>\<open>data.lastCompletedBuild === null\<close> of lines 150
  and 155 holds for \<^verbatim>\<open>null\<close> only, not for a missing key.
\<close>

definition resolveStatus :: "bool \<Rightarrow> job_snapshot \<Rightarrow> build_status" where
  "resolveStatus runningProject data =
     (let lastCompletedId = number_of (lastCompletedBuild data);
          lastSuccessfullId = number_of (lastSuccessfulBuild data);
          lastId = number_of (lastBuild data);
          lastFailedId = number_of (lastFailedBuild data);
          lastCanceled = number_of (lastUnsuccessfulBuild data);
          buildStatus =
            (if lastCompletedBuild data = NullRef then Unknown
             else if js_seq lastSuccessfullId lastCompletedId then Passing
             else if js_seq lastFailedId lastCompletedId then Failing
             else if js_seq lastCanceled lastCompletedId then Canceled
             else Unknown);
          currentStatus =
            (if lastCompletedBuild data = NullRef then Unknown
             else if js_seq lastSuccessfullId lastId then Passing
             else if js_seq lastFailedId lastId then Failing
             else if js_seq lastCanceled lastId then Canceled
             else Running);
          buildId =
            (if inQueue data then (if runningProject then lastId else js_add1 lastId)
             else if js_lt lastCompletedId lastId then js_add1 lastCompletedId
             else Null);
          etaTime = (if inQueue data then queue_eta (queueItem data) else Eta 0)
      in \<lparr> running = (inQueue data \<or> js_lt lastCompletedId lastId),
           queued = inQueue data,
           current = currentStatus,
           status = buildStatus,
           last_id = lastId,
           build = buildId,
           eta = etaTime \<rparr>)"

section \<open>Fetching\<close>

text \<open>
  What a request to the server can fail with (the argument of \<^verbatim>\<open>reject\<close>), and the
  \<^verbatim>\<open>TypeError\<close> that reading a property of \<^verbatim>\<open>undefined\<close> throws.
\<close>

datatype error = TransportError string | TypeError

text \<open>
  \<^verbatim>\<open>getProjectStatus\<close>: the promise of \<^verbatim>\<open>api.job.get\<close> settles with an error or with
  a snapshot; the \<^verbatim>\<open>then\<close> callback runs on a snapshot only.
\<close>

definition getProjectStatus :: "bool \<Rightarrow> error + job_snapshot \<Rightarrow> error + build_status" where
  "getProjectStatus runningProject fetched =
     (case fetched of
        Inl err \<Rightarrow> Inl err
      | Inr data \<Rightarrow> Inr (resolveStatus runningProject data))"

section \<open>The watch loop\<close>

text \<open>
  The variables \<^verbatim>\<open>line\<close>, \<^verbatim>\<open>count\<close>, \<^verbatim>\<open>lastChange\<close> and \<^verbatim>\<open>builds\<close> that the closures of
  \<^verbatim>\<open>watchProject\<close> share. Times are milliseconds.
\<close>

record tail_state =
  line :: nat
  count :: nat
  lastChange :: int
  builds :: "js list"

text \<open>
  What the outside world answers during one pass of \<^verbatim>\<open>loop\<close>: the settlement of
  \<^verbatim>\<open>api.job.get\<close>, the settlement of \<^verbatim>\<open>getBuildLog\<close> should the pass call it (the log
  already split at newlines, as \<^verbatim>\<open>getBuildLog\<close> resolves it), and what \<^verbatim>\<open>new Date()\<close>
  reads at line 227 (\<open>now_change\<close>), at line 232 (\<open>now_idle\<close>) and at line 239
  (\<open>now_eta\<close>).
\<close>

record poll =
  job :: "error + job_snapshot"
  log :: "error + string list"
  now_change :: int
  now_idle :: int
  now_eta :: int

text \<open>
  What the loop does to the outside: the request for a log, the lines printed by
  \<^verbatim>\<open>console.log\<close> and the status lines written by \<^verbatim>\<open>singlelog.stdout\<close>. The
  natural number of a status line is the index \<^verbatim>\<open>count % dots.length\<close> of its
  ellipsis; colours and wording are left out.
\<close>

datatype event =
    Watching
  | FetchLog js
  | Lines "string list"
  | LogTruncated nat nat
  | WaitingForOutput nat
  | WaitingForBuild js "int option" nat
  | NoActiveBuild

text \<open>The state of a promise.\<close>

datatype 'a promise = Pending | Fulfilled 'a | Rejected error

text \<open>
  A run of \<^verbatim>\<open>watchProject\<close> so far: \<open>outer\<close> is the promise \<^verbatim>\<open>watchProject\<close> returns;
  \<open>unhandled\<close> collects the errors of the promises \<^verbatim>\<open>loop\<close> returns, which nothing
  listens to (\<^verbatim>\<open>loop(true)\<close> and the timer callback drop them); \<open>thrown\<close> is an
  exception escaping from the timer callback.
\<close>

record watch_run =
  outer :: "build_status promise"
  unhandled :: "error list"
  thrown :: "error option"
  shown :: "event list"
  state :: tail_state

text \<open>Lines 213 to 215: \<^verbatim>\<open>if (data.build && builds.indexOf(data.build) > -1) builds.push(data.build)\<close>.\<close>

definition observe :: "js \<Rightarrow> js list \<Rightarrow> js list" where
  "observe b bs = (if truthy b \<and> js_includes bs b then bs @ [b] else bs)"

text \<open>
  Lines 224 to 235, the callback on the fetched log: \<^verbatim>\<open>log.slice(line)\<close> is printed
  when it is not empty, then one of the two status lines may be written.
\<close>

definition tailLog :: "poll \<Rightarrow> tail_state \<Rightarrow> string list \<Rightarrow> tail_state \<times> event list" where
  "tailLog p s lg =
     (let output = drop (line s) lg;
          s' = (if output \<noteq> []
                then s\<lparr> lastChange := now_change p, line := line s + length output \<rparr>
                else s);
          printed = (if output \<noteq> [] then [Lines output] else []);
          status_line =
            (if length lg = 10000 then [LogTruncated (length lg) (count s mod 3)]
             else if now_idle p - lastChange s' > 3000 then [WaitingForOutput (count s mod 3)]
             else [])
      in (s', printed @ status_line))"

text \<open>Line 239: the infinity glyph (\<open>None\<close>) or the time handed to \<^verbatim>\<open>moment\<close>.\<close>

definition eta_text :: "eta_time \<Rightarrow> int \<Rightarrow> int option" where
  "eta_text e now =
     (case e of Infinity \<Rightarrow> None | Eta t \<Rightarrow> if t < now then None else Some t)"

text \<open>
  Lines 211 to 245, the callback on the resolved status. The third component is the
  error of a failed log fetch: \<^verbatim>\<open>.catch(reject)\<close> at line 237 hands it to the pass's
  own promise and goes on with \<^verbatim>\<open>undefined\<close> for \<^verbatim>\<open>data\<close>.
\<close>

definition pollStep ::
  "bool \<Rightarrow> poll \<Rightarrow> build_status \<Rightarrow> tail_state \<Rightarrow> tail_state \<times> event list \<times> error option" where
  "pollStep runningProject p data s0 =
     (let s = s0\<lparr> count := count s0 + 1, builds := observe (build data) (builds s0) \<rparr>
      in if length (builds s) > 1 then (s, [], None)
         else if running data \<and> (runningProject \<or> \<not> queued data) then
           (case log p of
              Inl err \<Rightarrow> (s, [FetchLog (build data)], Some err)
            | Inr lg \<Rightarrow>
                (let (s', evs) = tailLog p s lg in (s', FetchLog (build data) # evs, None)))
         else if queued data then
           (s, [WaitingForBuild (build data) (eta_text (eta data) (now_eta p)) (count s mod 3)], None)
         else if runningProject \<and> \<not> running data then (s, [NoActiveBuild], None)
         else (s, [], None))"

text \<open>Line 204: \<^verbatim>\<open>data.build = data.build || builds[builds.length]\<close>.\<close>

definition finish :: "js list \<Rightarrow> build_status \<Rightarrow> build_status" where
  "finish bs data = data\<lparr> build := js_or (build data) (js_index bs (length bs)) \<rparr>"

text \<open>
  \<^verbatim>\<open>loop(running)\<close>, lines 200 to 249, run against the answers of the outside world, one
  \<open>poll\<close> for each pass. When the answers given are used up the run is returned as
  it stands, the outer promise still pending.

  A failed \<^verbatim>\<open>getProjectStatus\<close> rejects the promise that \<^verbatim>\<open>loop\<close> returns and nothing
  more happens. A failed log fetch rejects it too; the next \<^verbatim>\<open>then\<close> (line 246)
  still sets the timer, whose callback reads \<^verbatim>\<open>data.running\<close> of \<^verbatim>\<open>undefined\<close>.
\<close>

fun loop :: "bool \<Rightarrow> bool \<Rightarrow> poll list \<Rightarrow> watch_run \<Rightarrow> watch_run" where
  "loop runningProject rng [] r = r"
| "loop runningProject rng (p # ps) r =
     (if \<not> rng then
        (case getProjectStatus runningProject (job p) of
           Inl err \<Rightarrow> r\<lparr> unhandled := unhandled r @ [err] \<rparr>
         | Inr data \<Rightarrow> r\<lparr> outer := Fulfilled (finish (builds (state r)) data) \<rparr>)
      else
        (case getProjectStatus runningProject (job p) of
           Inl err \<Rightarrow> r\<lparr> unhandled := unhandled r @ [err] \<rparr>
         | Inr data \<Rightarrow>
             (case pollStep runningProject p data (state r) of
                (s, evs, Some err) \<Rightarrow>
                  r\<lparr> state := s, shown := shown r @ evs,
                     unhandled := unhandled r @ [err], thrown := Some TypeError \<rparr>
              | (s, evs, None) \<Rightarrow>
                  loop runningProject (running data \<and> length (builds s) < 2) ps
                    (r\<lparr> state := s, shown := shown r @ evs \<rparr>))))"

text \<open>\<^verbatim>\<open>watchProject\<close>; \<open>t0\<close> is what \<^verbatim>\<open>new Date()\<close> reads at line 195.\<close>

definition watchProject :: "bool \<Rightarrow> int \<Rightarrow> poll list \<Rightarrow> watch_run" where
  "watchProject runningProject t0 ps =
     loop runningProject True ps
       \<lparr> outer = Pending, unhandled = [], thrown = None, shown = [Watching],
         state = \<lparr> line = 0, count = 0, lastChange = t0, builds = [] \<rparr> \<rparr>"

section \<open>The specification's wording, for comparison\<close>

text \<open>The build number a reference stands for, if it stands for one.\<close>

fun ref_number :: "build_ref \<Rightarrow> int option" where
  "ref_number NoKey = None"
| "ref_number NullRef = None"
| "ref_number (Build n) = Some n"





text \<open>
  The idle indicator as the specification words it: shown once for each crossing of the
  threshold, and armed again only by new output. \<open>armed\<close> says whether the indicator
  may be shown; a run of the loop conforms when its events, read from the start with
  the indicator armed, never show it while it is not armed.
\<close>

fun spec_idle_once_per_crossing :: "bool \<Rightarrow> event list \<Rightarrow> bool" where
  "spec_idle_once_per_crossing armed [] = True"
| "spec_idle_once_per_crossing armed (WaitingForOutput k # es) =
     (armed \<and> spec_idle_once_per_crossing False es)"
| "spec_idle_once_per_crossing armed (Lines ls # es) = spec_idle_once_per_crossing True es"
| "spec_idle_once_per_crossing armed (e # es) = spec_idle_once_per_crossing armed es"

text \<open>
  The tailing of one build as a sequence of polls, each given by the log fetched and
  the two clock readings of the poll (at printing, and at the idle test). The parameters
  are the build followed, \<open>printedLineCount\<close>, \<open>lastOutputChangeTime\<close> and
  \<open>pollCount\<close>. Each poll counts, fetches the log and prints the lines beyond
  \<open>printedLineCount\<close>; if there are any, \<open>lastOutputChangeTime\<close> becomes the clock
  reading of this poll. Then a log of exactly 10000 lines brings the truncation
  warning; otherwise the idle indicator is shown whenever more than 3000 ms lie between
  the clock and \<open>lastOutputChangeTime\<close>, on every poll for which that holds. Either
  status line has the ellipsis frame \<open>pollCount mod 3\<close>.
\<close>

fun spec_tail_events ::
  "js \<Rightarrow> nat \<Rightarrow> int \<Rightarrow> nat \<Rightarrow> (string list \<times> int \<times> int) list \<Rightarrow> event list" where
  "spec_tail_events b printedLineCount lastOutputChangeTime pollCount [] = []"
| "spec_tail_events b printedLineCount lastOutputChangeTime pollCount
       ((lg, at_print, at_test) # rest) =
     (let fresh = drop printedLineCount lg;
          changed = (if fresh \<noteq> [] then at_print else lastOutputChangeTime);
          frame = (pollCount + 1) mod 3
      in FetchLog b # (if fresh \<noteq> [] then [Lines fresh] else [])
         @ (if length lg = 10000 then [LogTruncated 10000 frame]
            else if 3000 < at_test - changed then [WaitingForOutput frame]
            else [])
         @ spec_tail_events b (printedLineCount + length fresh) changed (pollCount + 1) rest)"

section \<open>Example snapshots and answers\<close>

text \<open>
  A job whose build \<open>n\<close> completed successfully and is its latest, with nothing
  queued; and a job whose build \<open>n\<close> completed successfully while build \<open>n + 1\<close>
  executes.
\<close>

definition completed :: "int \<Rightarrow> job_snapshot" where
  "completed n =
     \<lparr> lastCompletedBuild = Build n, lastSuccessfulBuild = Build n, lastBuild = Build n,
       lastFailedBuild = NullRef, lastUnsuccessfulBuild = NullRef, inQueue = False,
       queueItem = None \<rparr>"

definition executing :: "int \<Rightarrow> job_snapshot" where
  "executing n =
     \<lparr> lastCompletedBuild = Build n, lastSuccessfulBuild = Build n, lastBuild = Build (n + 1),
       lastFailedBuild = NullRef, lastUnsuccessfulBuild = NullRef, inQueue = False,
       queueItem = None \<rparr>"

text \<open>
  The server answers with snapshot \<open>d\<close> and log \<open>lg\<close> while the clock reads \<open>t\<close>; the
  job request fails; the job request succeeds and the log request fails.
\<close>

definition answer :: "job_snapshot \<Rightarrow> string list \<Rightarrow> int \<Rightarrow> poll" where
  "answer d lg t =
     \<lparr> job = Inr d, log = Inr lg, now_change = t, now_idle = t, now_eta = t \<rparr>"

definition job_failure :: "error \<Rightarrow> poll" where
  "job_failure err =
     \<lparr> job = Inl err, log = Inr [], now_change = 0, now_idle = 0, now_eta = 0 \<rparr>"

definition log_failure :: "job_snapshot \<Rightarrow> error \<Rightarrow> poll" where
  "log_failure d err =
     \<lparr> job = Inr d, log = Inl err, now_change = 0, now_idle = 0, now_eta = 0 \<rparr>"

text \<open>
  The server answers with snapshot \<open>d\<close> and log \<open>lg\<close>, while the clock reads
  \<open>at_print\<close> at line 227 and \<open>at_test\<close> at line 232.
\<close>

definition tailing :: "job_snapshot \<Rightarrow> string list \<times> int \<times> int \<Rightarrow> poll" where
  "tailing d a =
     (case a of
        (lg, at_print, at_test) \<Rightarrow>
          \<lparr> job = Inr d, log = Inr lg, now_change = at_print, now_idle = at_test,
            now_eta = at_test \<rparr>)"

section \<open>The status resolver\<close>

subsection \<open>Build numbers read from a snapshot\<close>

lemma js_seq_number_of: "js_seq (number_of a) (number_of b) = (ref_number a = ref_number b)"
  by (cases a; cases b) (simp_all add: js_seq_def)

lemma js_lt_number_of:
  "js_lt (number_of a) (number_of b) =
     (case ref_number a of
        None \<Rightarrow> False
      | Some x \<Rightarrow> (case ref_number b of None \<Rightarrow> False | Some y \<Rightarrow> x < y))"
  by (cases a; cases b) (simp_all add: js_lt_def)

lemma js_add1_number_of:
  "js_add1 (number_of a) = (case ref_number a of None \<Rightarrow> NaN | Some x \<Rightarrow> Num (x + 1))"
  by (cases a) (simp_all add: js_add1_def)

subsection \<open>The fields of the resolved status\<close>

lemma status_resolveStatus:
  "status (resolveStatus rp d) =
     (if lastCompletedBuild d = NullRef then Unknown
      else if ref_number (lastSuccessfulBuild d) = ref_number (lastCompletedBuild d) then Passing
      else if ref_number (lastFailedBuild d) = ref_number (lastCompletedBuild d) then Failing
      else if ref_number (lastUnsuccessfulBuild d) = ref_number (lastCompletedBuild d)
        then Canceled
      else Unknown)"
  by (simp add: resolveStatus_def Let_def js_seq_number_of)

lemma current_resolveStatus:
  "current (resolveStatus rp d) =
     (if lastCompletedBuild d = NullRef then Unknown
      else if ref_number (lastSuccessfulBuild d) = ref_number (lastBuild d) then Passing
      else if ref_number (lastFailedBuild d) = ref_number (lastBuild d) then Failing
      else if ref_number (lastUnsuccessfulBuild d) = ref_number (lastBuild d) then Canceled
      else Running)"
  by (simp add: resolveStatus_def Let_def js_seq_number_of)

lemma running_resolveStatus:
  "running (resolveStatus rp d) =
     (inQueue d \<or>
      (case ref_number (lastCompletedBuild d) of
         None \<Rightarrow> False
       | Some c \<Rightarrow> (case ref_number (lastBuild d) of None \<Rightarrow> False | Some l \<Rightarrow> c < l)))"
  by (simp add: resolveStatus_def Let_def js_lt_number_of)

lemma queued_resolveStatus: "queued (resolveStatus rp d) = inQueue d"
  by (simp add: resolveStatus_def Let_def)

lemma build_resolveStatus:
  "build (resolveStatus rp d) =
     (if inQueue d then
        (if rp then number_of (lastBuild d)
         else (case ref_number (lastBuild d) of None \<Rightarrow> NaN | Some l \<Rightarrow> Num (l + 1)))
      else (case ref_number (lastCompletedBuild d) of
              None \<Rightarrow> Null
            | Some c \<Rightarrow>
                (case ref_number (lastBuild d) of
                   None \<Rightarrow> Null
                 | Some l \<Rightarrow> if c < l then Num (c + 1) else Null)))"
  by (simp add: resolveStatus_def Let_def js_lt_number_of js_add1_number_of
      split: option.splits)

subsection \<open>The end-to-end scenario\<close>

text \<open>
  C1, as the code has it: for the snapshot with \<open>lastCompletedBuild\<close>,
  \<open>lastSuccessfulBuild\<close> and \<open>lastBuild\<close> all 5 and nothing queued, whatever the other
  fields and whoever calls, the resolver returns running false, queued false, current
  and status passing, last 5 and eta 0, with \<open>build\<close> null: no build is in flight, and
  the last branch of the \<open>buildId\<close> ternary is taken.
\<close>

theorem scenario_resolved:
  "resolveStatus runningProject
     \<lparr> lastCompletedBuild = Build 5, lastSuccessfulBuild = Build 5, lastBuild = Build 5,
       lastFailedBuild = f, lastUnsuccessfulBuild = u, inQueue = False, queueItem = q \<rparr>
   = \<lparr> running = False, queued = False, current = Passing, status = Passing,
       last_id = Num 5, build = Null, eta = Eta 0 \<rparr>"
  by (simp add: resolveStatus_def js_seq_def js_lt_def)

text \<open>
  C1 as stated fails: for neither value of \<open>runningProject\<close> is the status resolved
  from that snapshot the one with \<open>build\<close> 5.
\<close>

theorem scenario_build_is_not_5:
  "resolveStatus False
     \<lparr> lastCompletedBuild = Build 5, lastSuccessfulBuild = Build 5, lastBuild = Build 5,
       lastFailedBuild = NullRef, lastUnsuccessfulBuild = NullRef, inQueue = False,
       queueItem = None \<rparr>
   \<noteq> \<lparr> running = False, queued = False, current = Passing, status = Passing,
       last_id = Num 5, build = Num 5, eta = Eta 0 \<rparr>
   \<and> resolveStatus True
     \<lparr> lastCompletedBuild = Build 5, lastSuccessfulBuild = Build 5, lastBuild = Build 5,
       lastFailedBuild = NullRef, lastUnsuccessfulBuild = NullRef, inQueue = False,
       queueItem = None \<rparr>
   \<noteq> \<lparr> running = False, queued = False, current = Passing, status = Passing,
       last_id = Num 5, build = Num 5, eta = Eta 0 \<rparr>"
  by (simp add: resolveStatus_def js_seq_def js_lt_def)

lemma resolve_executing:
  "resolveStatus rp (executing n) =
     \<lparr> running = True, queued = False, current = Running, status = Passing,
       last_id = Num (n + 1), build = Num (n + 1), eta = Eta 0 \<rparr>"
  by (simp add: resolveStatus_def Let_def executing_def js_seq_def js_lt_def js_add1_def)

lemma resolve_completed:
  "resolveStatus rp (completed n) =
     \<lparr> running = False, queued = False, current = Passing, status = Passing,
       last_id = Num n, build = Null, eta = Eta 0 \<rparr>"
  by (simp add: resolveStatus_def Let_def completed_def js_seq_def js_lt_def js_add1_def)

subsection \<open>Status and current\<close>



subsection \<open>The build to follow\<close>

text \<open>
  C5, at the first build of a new job, queued by a caller that has just triggered it:
  every build reference is \<^verbatim>\<open>null\<close>, the code adds 1 to \<^verbatim>\<open>undefined\<close> and \<open>build\<close> is
  \<^verbatim>\<open>NaN\<close>, no build number. With a \<open>lastBuild\<close> to add to, the field is as claimed:
  42 for a build queued after build 41, and 42 with build 41 completed and build 42 the
  latest.
\<close>

theorem first_queued_build_is_NaN:
  "build (resolveStatus False
       \<lparr> lastCompletedBuild = NullRef, lastSuccessfulBuild = NullRef, lastBuild = NullRef,
         lastFailedBuild = NullRef, lastUnsuccessfulBuild = NullRef, inQueue = True,
         queueItem = None \<rparr>) = NaN
   \<and> build (resolveStatus False (d\<lparr> inQueue := True, lastBuild := Build 41 \<rparr>)) = Num 42
   \<and> build (resolveStatus rp
        (d\<lparr> inQueue := False, lastCompletedBuild := Build 41, lastBuild := Build 42 \<rparr>)) = Num 42"
  by (simp add: build_resolveStatus)

subsection \<open>A job at rest\<close>

text \<open>
  C6, as the code has it: when \<open>lastCompletedBuild\<close>, \<open>lastSuccessfulBuild\<close> and
  \<open>lastBuild\<close> are present and equal, \<open>status\<close> and \<open>current\<close> are passing and
  \<open>running\<close> is \<open>inQueue\<close>: false when nothing is queued, true when a build is.
\<close>

theorem all_equal_passing:
  assumes "lastCompletedBuild d = Build n" and "lastSuccessfulBuild d = Build n"
    and "lastBuild d = Build n"
  shows "status (resolveStatus rp d) = Passing \<and> current (resolveStatus rp d) = Passing
    \<and> running (resolveStatus rp d) = inQueue d"
  using assms by (simp add: status_resolveStatus current_resolveStatus running_resolveStatus)

theorem all_equal_passing_witness:
  "lastCompletedBuild (completed 5) = Build 5 \<and> lastSuccessfulBuild (completed 5) = Build 5
   \<and> lastBuild (completed 5) = Build 5
   \<and> status (resolveStatus False (completed 5)) = Passing
   \<and> current (resolveStatus False (completed 5)) = Passing
   \<and> running (resolveStatus False (completed 5)) = False"
proof -
  have h: "lastCompletedBuild (completed 5) = Build 5"
    "lastSuccessfulBuild (completed 5) = Build 5" "lastBuild (completed 5) = Build 5"
    by (simp_all add: completed_def)
  have q: "inQueue (completed 5) = False"
    by (simp add: completed_def)
  from all_equal_passing [OF h, of False] h q show ?thesis by simp
qed

text \<open>
  C6 as stated fails: with the three references all 5 and a further build queued, the
  status is passing and \<open>running\<close> is true.
\<close>

theorem all_equal_queued_is_running:
  "\<not> (status (resolveStatus False
          \<lparr> lastCompletedBuild = Build 5, lastSuccessfulBuild = Build 5, lastBuild = Build 5,
            lastFailedBuild = NullRef, lastUnsuccessfulBuild = NullRef, inQueue = True,
            queueItem = None \<rparr>) = Passing
      \<and> current (resolveStatus False
          \<lparr> lastCompletedBuild = Build 5, lastSuccessfulBuild = Build 5, lastBuild = Build 5,
            lastFailedBuild = NullRef, lastUnsuccessfulBuild = NullRef, inQueue = True,
            queueItem = None \<rparr>) = Passing
      \<and> running (resolveStatus False
          \<lparr> lastCompletedBuild = Build 5, lastSuccessfulBuild = Build 5, lastBuild = Build 5,
            lastFailedBuild = NullRef, lastUnsuccessfulBuild = NullRef, inQueue = True,
            queueItem = None \<rparr>) = False)"
  by (simp add: running_resolveStatus)

section \<open>The watch loop\<close>

subsection \<open>What one pass does\<close>

lemma observe_Nil: "observe b [] = []"
  by (simp add: observe_def js_includes_def)

lemma tailLog_builds: "builds (fst (tailLog p s lg)) = builds s"
  by (simp add: tailLog_def Let_def)

lemma tailLog_no_fetch: "FetchLog b \<notin> set (snd (tailLog p s lg))"
  by (simp add: tailLog_def Let_def)

lemma pollStep_builds_Nil: "builds s = [] \<Longrightarrow> builds (fst (pollStep rp p data s)) = []"
  by (simp add: pollStep_def Let_def observe_Nil case_prod_beta tailLog_builds
      split: sum.splits)

lemma pollStep_fetch:
  "FetchLog b \<in> set (fst (snd (pollStep rp p data s))) \<Longrightarrow>
     b = build data \<and> running data \<and> (rp \<or> \<not> queued data)"
  by (auto simp add: pollStep_def Let_def case_prod_beta tailLog_no_fetch
      split: if_splits sum.splits)

lemma finish_build:
  "build (finish bs data) = (if truthy (build data) then build data else Undefined)"
  by (simp add: finish_def js_or_def js_index_def)

subsection \<open>Invariants of a run\<close>

text \<open>The list \<open>builds\<close> starts empty and stays empty through every pass.\<close>

lemma loop_builds_Nil:
  "builds (state r) = [] \<Longrightarrow> builds (state (loop rp rng ps r)) = []"
proof (induction ps arbitrary: rng r)
  case Nil
  then show ?case by simp
next
  case (Cons p ps)
  show ?case
  proof (cases "getProjectStatus rp (job p)")
    case (Inl err)
    with Cons.prems show ?thesis by simp
  next
    case (Inr data)
    obtain s evs e where st: "pollStep rp p data (state r) = (s, evs, e)"
      by (cases "pollStep rp p data (state r)")
    from pollStep_builds_Nil [OF Cons.prems, of rp p data] st have s: "builds s = []"
      by simp
    show ?thesis
    proof (cases rng)
      case False
      with Inr Cons.prems show ?thesis by simp
    next
      case True
      show ?thesis
      proof (cases e)
        case None
        with True Inr st s show ?thesis by (simp add: Cons.IH)
      next
        case (Some err)
        with True Inr st s show ?thesis by simp
      qed
    qed
  qed
qed

lemma watchProject_builds_Nil: "builds (state (watchProject rp t0 ps)) = []"
  by (simp add: watchProject_def loop_builds_Nil)

text \<open>No pass rejects the promise that \<^verbatim>\<open>watchProject\<close> returns.\<close>

lemma loop_not_rejected:
  "outer r \<noteq> Rejected e \<Longrightarrow> outer (loop rp rng ps r) \<noteq> Rejected e"
proof (induction ps arbitrary: rng r)
  case Nil
  then show ?case by simp
next
  case (Cons p ps)
  show ?case
  proof (cases "getProjectStatus rp (job p)")
    case (Inl err)
    with Cons.prems show ?thesis by simp
  next
    case (Inr data)
    obtain s evs x where st: "pollStep rp p data (state r) = (s, evs, x)"
      by (cases "pollStep rp p data (state r)")
    show ?thesis
    proof (cases rng)
      case False
      with Inr show ?thesis by simp
    next
      case True
      show ?thesis
      proof (cases x)
        case None
        with True Inr st Cons.prems show ?thesis by (simp add: Cons.IH)
      next
        case (Some err)
        with True Inr st Cons.prems show ?thesis by simp
      qed
    qed
  qed
qed

lemma watchProject_not_rejected: "outer (watchProject rp t0 ps) \<noteq> Rejected e"
  by (simp add: watchProject_def loop_not_rejected)

subsection \<open>The builds seen\<close>

text \<open>
  C3, at the first pass of a watch on a job whose build 42 executes: the resolved
  \<open>build\<close> is 42 and \<open>builds\<close> is empty, so 42 differs from its last entry, yet
  \<open>builds\<close> is still empty after the pass. The test of line 213 asks that the build
  be in the list already.
\<close>

theorem first_build_not_recorded:
  "build (resolveStatus False (executing 41)) = Num 42
   \<and> builds (fst (pollStep False (answer (executing 41) [''Started''] 1000)
        (resolveStatus False (executing 41))
        \<lparr> line = 0, count = 0, lastChange = 0, builds = [] \<rparr>)) = []
   \<and> builds (state (watchProject False 0 [answer (executing 41) [''Started''] 1000])) = []"
  by (simp add: resolve_executing pollStep_builds_Nil watchProject_builds_Nil)

subsection \<open>Failed requests\<close>

text \<open>
  C4, at a watch whose first job request fails, and at one whose first log request fails:
  whatever the server would answer afterwards, the promise returned by \<^verbatim>\<open>watchProject\<close>
  stays pending. The error reaches only the promise of the pass, which has no listener;
  after the failed log request the timer callback throws a \<^verbatim>\<open>TypeError\<close> besides.
\<close>

theorem failed_fetch_leaves_watch_pending:
  "outer (watchProject True 0 (job_failure (TransportError ''ECONNREFUSED'') # ps)) = Pending
   \<and> unhandled (watchProject True 0 (job_failure (TransportError ''ECONNREFUSED'') # ps))
       = [TransportError ''ECONNREFUSED'']
   \<and> outer (watchProject True 0
        (log_failure (executing 41) (TransportError ''ECONNREFUSED'') # ps)) = Pending
   \<and> unhandled (watchProject True 0
        (log_failure (executing 41) (TransportError ''ECONNREFUSED'') # ps))
       = [TransportError ''ECONNREFUSED'']
   \<and> thrown (watchProject True 0
        (log_failure (executing 41) (TransportError ''ECONNREFUSED'') # ps))
       = Some TypeError"
  by (simp add: watchProject_def getProjectStatus_def job_failure_def log_failure_def
      resolve_executing pollStep_def observe_Nil)

subsection \<open>The final status\<close>

text \<open>
  C7, at a watch that follows build 42 until it completes: the loop stops, the final
  snapshot is fetched and resolved with no build in flight, and the promise is fulfilled
  with \<open>build\<close> undefined, not 42. Line 204 reads \<open>builds\<close> one place past its end:
  the same happens when \<open>builds\<close> holds 42.
\<close>

theorem final_build_not_substituted:
  "outer (watchProject False 0
       [answer (executing 41) [''Started''] 1000, answer (completed 42) [] 2000,
        answer (completed 42) [] 3000])
     = Fulfilled \<lparr> running = False, queued = False, current = Passing, status = Passing,
         last_id = Num 42, build = Undefined, eta = Eta 0 \<rparr>
   \<and> build (finish [Num 42] (resolveStatus False (completed 42))) = Undefined"
  by (simp add: watchProject_def getProjectStatus_def answer_def resolve_executing
      resolve_completed pollStep_def observe_Nil tailLog_def finish_def js_or_def js_index_def)

subsection \<open>Truncated logs\<close>

text \<open>
  C8: in the callback on the fetched log, the truncation warning is written exactly when
  the log has 10000 lines, and then the idle indicator is not; a log of 10000 lines
  brings the warning, one of 9999 or of 10001 lines does not.
\<close>

theorem truncation_exactly_at_10000:
  "(\<exists>n k. LogTruncated n k \<in> set (snd (tailLog p s lg))) = (length lg = 10000)
   \<and> \<not> (length lg = 10000 \<and> (\<exists>k. WaitingForOutput k \<in> set (snd (tailLog p s lg))))
   \<and> (\<exists>n k. LogTruncated n k \<in> set (snd (tailLog p s (replicate 10000 l))))
   \<and> \<not> (\<exists>n k. LogTruncated n k \<in> set (snd (tailLog p s (replicate 9999 l))))
   \<and> \<not> (\<exists>n k. LogTruncated n k \<in> set (snd (tailLog p s (replicate 10001 l))))"
  by (auto simp add: tailLog_def Let_def)

subsection \<open>The idle indicator\<close>

text \<open>What the callback on the fetched log hands on to the next pass.\<close>

lemma tailLog_state:
  "fst (tailLog p s lg) =
     (if line s < length lg
      then s\<lparr> lastChange := now_change p, line := line s + length (drop (line s) lg) \<rparr>
      else s)"
  by (simp add: tailLog_def Let_def)

lemma tailLog_events:
  "snd (tailLog p s lg) =
     (if line s < length lg then [Lines (drop (line s) lg)] else [])
     @ (if length lg = 10000 then [LogTruncated 10000 (count s mod 3)]
        else if 3000 < now_idle p - (if line s < length lg then now_change p else lastChange s)
          then [WaitingForOutput (count s mod 3)]
        else [])"
  by (simp add: tailLog_def Let_def)

text \<open>A pass that takes the tailing branch, from a state with no build seen.\<close>

lemma pollStep_tailing:
  assumes "builds s = []" and "running data" and "rp \<or> \<not> queued data"
  shows "pollStep rp (tailing d (lg, at_print, at_test)) data s =
    (fst (tailLog (tailing d (lg, at_print, at_test)) (s\<lparr> count := Suc (count s) \<rparr>) lg),
     FetchLog (build data)
       # snd (tailLog (tailing d (lg, at_print, at_test)) (s\<lparr> count := Suc (count s) \<rparr>) lg),
     None)"
proof -
  have s: "s\<lparr> count := c, builds := [] \<rparr> = s\<lparr> count := c \<rparr>" for c
    using assms(1) by simp
  have l: "log (tailing d (lg, at_print, at_test)) = Inr lg"
    by (simp add: tailing_def)
  from assms(2,3) show ?thesis
    by (simp add: pollStep_def Let_def assms(1) observe_Nil s l case_prod_beta)
qed

lemma loop_tailing:
  assumes "running (resolveStatus rp d)" and "rp \<or> \<not> queued (resolveStatus rp d)"
  shows "builds (state r) = [] \<Longrightarrow>
   shown (loop rp True (map (tailing d) polls) r) =
     shown r @ spec_tail_events (build (resolveStatus rp d)) (line (state r))
       (lastChange (state r)) (count (state r)) polls"
proof (induction polls arbitrary: r)
  case Nil
  then show ?case by simp
next
  case (Cons a polls)
  obtain lg at_print at_test where a: "a = (lg, at_print, at_test)"
    by (cases a)
  define p where "p = tailing d (lg, at_print, at_test)"
  define s where "s = fst (tailLog p ((state r)\<lparr> count := Suc (count (state r)) \<rparr>) lg)"
  define evs where
    "evs = FetchLog (build (resolveStatus rp d))
       # snd (tailLog p ((state r)\<lparr> count := Suc (count (state r)) \<rparr>) lg)"
  define r' where "r' = r\<lparr> state := s, shown := shown r @ evs \<rparr>"
  have job: "getProjectStatus rp (job p) = Inr (resolveStatus rp d)"
    by (simp add: getProjectStatus_def tailing_def p_def)
  have step: "pollStep rp p (resolveStatus rp d) (state r) = (s, evs, None)"
    unfolding p_def s_def evs_def using Cons.prems assms by (rule pollStep_tailing)
  have bs: "builds s = []"
    unfolding s_def using Cons.prems by (simp add: tailLog_builds)
  have go: "running (resolveStatus rp d) \<and> length (builds s) < 2"
    by (simp add: assms(1) bs)
  have unfold: "loop rp True (map (tailing d) (a # polls)) r
      = loop rp True (map (tailing d) polls) r'"
    using go by (simp add: a p_def [symmetric] job step r'_def)
  have bs': "builds (state r') = []"
    using bs by (simp add: r'_def)
  have now: "now_change p = at_print" "now_idle p = at_test"
    by (simp_all add: tailing_def p_def)
  have "shown (loop rp True (map (tailing d) (a # polls)) r)
      = shown r' @ spec_tail_events (build (resolveStatus rp d)) (line (state r'))
          (lastChange (state r')) (count (state r')) polls"
    by (simp only: unfold Cons.IH [OF bs'])
  also have "\<dots> = shown r @ spec_tail_events (build (resolveStatus rp d)) (line (state r))
      (lastChange (state r)) (count (state r)) (a # polls)"
    by (simp add: a r'_def s_def evs_def tailLog_state tailLog_events now Let_def)
  finally show ?case .
qed

text \<open>
  C9, as the code has it: while the snapshot sends the loop into its tailing branch
  (running, and not queued or watched by a caller that expects a running build), every
  poll counts, fetches the log and prints the lines not yet printed, which makes this
  poll's clock reading the time of the last change. Then, unless the log has exactly
  10000 lines, the idle indicator is written whenever more than 3000 ms lie between the
  clock and the time of the last change (the last poll that printed, this one included,
  or the start of the watch), with the ellipsis of the poll count modulo 3. Nothing
  remembers that the indicator was written, so every poll beyond the threshold writes it
  again, each with the next ellipsis, until output resumes.
\<close>

theorem idle_indicator_on_each_poll:
  assumes "running (resolveStatus rp d)" and "rp \<or> \<not> queued (resolveStatus rp d)"
  shows "shown (watchProject rp t0 (map (tailing d) polls))
     = Watching # spec_tail_events (build (resolveStatus rp d)) 0 t0 0 polls"
  using assms by (simp add: watchProject_def loop_tailing)

text \<open>
  Build 42 executes. With one line printed at 1000 ms, the poll at 3500 ms writes nothing,
  those at 5000 ms and 6000 ms write the indicator with frames 0 and 1, the poll at
  7000 ms prints a second line, and the poll at 10500 ms writes the indicator again, with
  frame 0.
\<close>

theorem idle_indicator_on_each_poll_witness:
  "running (resolveStatus False (executing 41))
   \<and> \<not> queued (resolveStatus False (executing 41))
   \<and> shown (watchProject False 0
        (map (tailing (executing 41))
           [([''Started''], 1000, 1000), ([''Started''], 3500, 3500),
            ([''Started''], 5000, 5000), ([''Started''], 6000, 6000),
            ([''Started'', ''Done''], 7000, 7000), ([''Started'', ''Done''], 10500, 10500)]))
     = [Watching, FetchLog (Num 42), Lines [''Started''], FetchLog (Num 42),
        FetchLog (Num 42), WaitingForOutput 0, FetchLog (Num 42), WaitingForOutput 1,
        FetchLog (Num 42), Lines [''Done''], FetchLog (Num 42), WaitingForOutput 0]"
proof -
  have h1: "running (resolveStatus False (executing 41))"
    by (simp add: resolve_executing)
  have h2: "False \<or> \<not> queued (resolveStatus False (executing 41))"
    by (simp add: resolve_executing)
  have b: "build (resolveStatus False (executing 41)) = Num 42"
    by (simp add: resolve_executing)
  have run: "shown (watchProject False 0
        (map (tailing (executing 41))
           [([''Started''], 1000, 1000), ([''Started''], 3500, 3500),
            ([''Started''], 5000, 5000), ([''Started''], 6000, 6000),
            ([''Started'', ''Done''], 7000, 7000), ([''Started'', ''Done''], 10500, 10500)]))
     = [Watching, FetchLog (Num 42), Lines [''Started''], FetchLog (Num 42),
        FetchLog (Num 42), WaitingForOutput 0, FetchLog (Num 42), WaitingForOutput 1,
        FetchLog (Num 42), Lines [''Done''], FetchLog (Num 42), WaitingForOutput 0]"
    by (simp only: idle_indicator_on_each_poll [OF h1 h2] b) (simp add: Let_def)
  from h1 h2 run show ?thesis by simp
qed

text \<open>
  C9 as stated fails: build 42 prints one line at 1000 ms and nothing after; the passes
  at 5000 ms and at 6000 ms both write the idle indicator, with no output in between.
\<close>

theorem idle_shown_on_every_poll:
  "\<not> spec_idle_once_per_crossing True (shown (watchProject False 0
       [answer (executing 41) [''Started''] 1000, answer (executing 41) [''Started''] 5000,
        answer (executing 41) [''Started''] 6000]))"
  by (simp add: watchProject_def getProjectStatus_def answer_def resolve_executing
      pollStep_def observe_Nil tailLog_def)

subsection \<open>The build whose log is fetched\<close>

text \<open>
  C10: when \<open>lastCompletedBuild\<close> and \<open>lastBuild\<close> are both present and the resolver
  returns running true and queued false, \<open>build\<close> is the number
  \<open>lastCompletedBuild + 1\<close>; and every log request that a pass makes for a caller that
  has just triggered a build asks for that number.
\<close>

theorem running_unqueued_build:
  assumes "lastCompletedBuild d = Build c" and "lastBuild d = Build l"
    and "running (resolveStatus rp d)" and "\<not> queued (resolveStatus rp d)"
  shows "build (resolveStatus rp d) = Num (c + 1)
    \<and> (\<forall>p s b. FetchLog b \<in> set (fst (snd (pollStep False p (resolveStatus False d) s)))
          \<longrightarrow> b = Num (c + 1))"
proof -
  from assms have nq: "\<not> inQueue d" and lt: "c < l"
    by (simp_all add: queued_resolveStatus running_resolveStatus)
  from assms(1,2) nq lt have b: "build (resolveStatus rp' d) = Num (c + 1)" for rp'
    by (simp add: build_resolveStatus)
  show ?thesis
  proof (intro conjI allI impI)
    show "build (resolveStatus rp d) = Num (c + 1)" by (rule b)
  next
    fix p s x
    assume "FetchLog x \<in> set (fst (snd (pollStep False p (resolveStatus False d) s)))"
    then have "x = build (resolveStatus False d)" by (rule pollStep_fetch [THEN conjunct1])
    then show "x = Num (c + 1)" by (simp add: b)
  qed
qed

theorem running_unqueued_build_witness:
  "lastCompletedBuild (executing 41) = Build 41 \<and> lastBuild (executing 41) = Build 42
   \<and> running (resolveStatus False (executing 41))
   \<and> \<not> queued (resolveStatus False (executing 41))
   \<and> build (resolveStatus False (executing 41)) = Num 42
   \<and> FetchLog (Num 42) \<in> set (fst (snd (pollStep False
        (answer (executing 41) [''Started''] 1000) (resolveStatus False (executing 41))
        \<lparr> line = 0, count = 0, lastChange = 0, builds = [] \<rparr>)))"
proof -
  have h1: "lastCompletedBuild (executing 41) = Build 41" "lastBuild (executing 41) = Build 42"
    by (simp_all add: executing_def)
  have h2: "running (resolveStatus False (executing 41))"
    "\<not> queued (resolveStatus False (executing 41))"
    by (simp_all add: resolve_executing)
  note h = h1 h2
  have f: "FetchLog (Num 42) \<in> set (fst (snd (pollStep False
        (answer (executing 41) [''Started''] 1000) (resolveStatus False (executing 41))
        \<lparr> line = 0, count = 0, lastChange = 0, builds = [] \<rparr>)))"
    by (simp add: resolve_executing pollStep_def observe_Nil answer_def tailLog_def)
  have b: "build (resolveStatus False (executing 41)) = Num 42"
    using running_unqueued_build [OF h, THEN conjunct1] by simp
  from h b f show ?thesis by (intro conjI)
qed

end
